theory Spec2Isabelle
  imports Complex_Main "HOL-Library.Sublist"
begin

section \<open>The sensitivity engine of \<open>src/lib/sensitivity-calculator.ts\<close>\<close>

text \<open>
  The module has two exported functions, \<open>calculateSensitivity\<close> and
  \<open>generateExplanation\<close>, over two interfaces and three string enumerations.

  A TypeScript \<open>number\<close> is modelled as a \<open>real\<close> and the arithmetic is exact: the
  rounding error of IEEE doubles, \<open>NaN\<close> and the infinities are outside the model.
  The six result fields are produced by \<open>Math.round\<close> and are integers, so the result
  record has \<open>int\<close> fields. \<open>Math.round\<close> rounds halves towards plus infinity, which is
  \<open>round x = \<lfloor>x + 1/2\<rfloor>\<close> of HOL.
\<close>

subsection \<open>Data model\<close>

datatype Playstyle = freestyle | instaplayer | rusher | balanced | onetap | sniper

datatype PingLevel = low | medium | high

datatype Platform = android | ios | unknown

record SensitivityResult =
  general :: int
  redDot :: int
  scope2x :: int
  scope4x :: int
  awmScope :: int
  freeLook :: int

text \<open>\<open>dpi: number | null\<close> is an option; \<open>None\<close> is \<open>null\<close>.\<close>

record CalculationInput =
  platform :: Platform
  playstyle :: Playstyle
  pingLevel :: PingLevel
  screenSize :: real
  refreshRate :: real
  dpi :: "real option"
  useCustomDpi :: bool

text \<open>The keys of \<open>BASE_SENSITIVITIES\<close> and of each row of \<open>PLAYSTYLE_MODIFIERS\<close>.\<close>

datatype Channel = General | RedDot | Scope2x | Scope4x | AwmScope | FreeLook

subsection \<open>Constants and modifiers\<close>

text \<open>\<open>Math.min(200, Math.max(1, Math.round(value)))\<close>\<close>

definition clamp :: "real \<Rightarrow> int" where
  "clamp v = min 200 (max 1 (round v))"

fun BASE_SENSITIVITIES :: "Channel \<Rightarrow> real" where
  "BASE_SENSITIVITIES General = 165"
| "BASE_SENSITIVITIES RedDot = 160"
| "BASE_SENSITIVITIES Scope2x = 145"
| "BASE_SENSITIVITIES Scope4x = 130"
| "BASE_SENSITIVITIES AwmScope = 110"
| "BASE_SENSITIVITIES FreeLook = 185"

fun PLAYSTYLE_MODIFIERS :: "Playstyle \<Rightarrow> Channel \<Rightarrow> real" where
  "PLAYSTYLE_MODIFIERS freestyle General = 1.22"
| "PLAYSTYLE_MODIFIERS freestyle RedDot = 1.20"
| "PLAYSTYLE_MODIFIERS freestyle Scope2x = 1.15"
| "PLAYSTYLE_MODIFIERS freestyle Scope4x = 1.10"
| "PLAYSTYLE_MODIFIERS freestyle AwmScope = 1.05"
| "PLAYSTYLE_MODIFIERS freestyle FreeLook = 1.08"
| "PLAYSTYLE_MODIFIERS instaplayer General = 1.18"
| "PLAYSTYLE_MODIFIERS instaplayer RedDot = 1.15"
| "PLAYSTYLE_MODIFIERS instaplayer Scope2x = 1.10"
| "PLAYSTYLE_MODIFIERS instaplayer Scope4x = 1.05"
| "PLAYSTYLE_MODIFIERS instaplayer AwmScope = 1.0"
| "PLAYSTYLE_MODIFIERS instaplayer FreeLook = 1.05"
| "PLAYSTYLE_MODIFIERS rusher General = 1.12"
| "PLAYSTYLE_MODIFIERS rusher RedDot = 1.08"
| "PLAYSTYLE_MODIFIERS rusher Scope2x = 1.05"
| "PLAYSTYLE_MODIFIERS rusher Scope4x = 1.02"
| "PLAYSTYLE_MODIFIERS rusher AwmScope = 0.98"
| "PLAYSTYLE_MODIFIERS rusher FreeLook = 1.03"
| "PLAYSTYLE_MODIFIERS balanced General = 1.03"
| "PLAYSTYLE_MODIFIERS balanced RedDot = 1.03"
| "PLAYSTYLE_MODIFIERS balanced Scope2x = 1.03"
| "PLAYSTYLE_MODIFIERS balanced Scope4x = 1.03"
| "PLAYSTYLE_MODIFIERS balanced AwmScope = 1.03"
| "PLAYSTYLE_MODIFIERS balanced FreeLook = 1.03"
| "PLAYSTYLE_MODIFIERS onetap General = 1.0"
| "PLAYSTYLE_MODIFIERS onetap RedDot = 0.97"
| "PLAYSTYLE_MODIFIERS onetap Scope2x = 0.94"
| "PLAYSTYLE_MODIFIERS onetap Scope4x = 0.90"
| "PLAYSTYLE_MODIFIERS onetap AwmScope = 0.85"
| "PLAYSTYLE_MODIFIERS onetap FreeLook = 1.0"
| "PLAYSTYLE_MODIFIERS sniper General = 0.95"
| "PLAYSTYLE_MODIFIERS sniper RedDot = 0.92"
| "PLAYSTYLE_MODIFIERS sniper Scope2x = 0.88"
| "PLAYSTYLE_MODIFIERS sniper Scope4x = 0.82"
| "PLAYSTYLE_MODIFIERS sniper AwmScope = 0.75"
| "PLAYSTYLE_MODIFIERS sniper FreeLook = 0.95"

fun PING_MODIFIERS :: "PingLevel \<Rightarrow> real" where
  "PING_MODIFIERS low = 0.95"
| "PING_MODIFIERS medium = 1.0"
| "PING_MODIFIERS high = 1.08"

definition getScreenSizeModifier :: "real \<Rightarrow> real" where
  "getScreenSizeModifier s =
    (if s \<le> 5.5 then 1.08
     else if s \<le> 6.0 then 1.04
     else if s \<le> 6.5 then 1.0
     else if s \<le> 7.0 then 0.96
     else 0.92)"

definition getRefreshRateModifier :: "real \<Rightarrow> real" where
  "getRefreshRateModifier r =
    (if r \<le> 60 then 0.95
     else if r \<le> 90 then 1.0
     else if r \<le> 120 then 1.05
     else 1.08)"

text \<open>
  \<open>Math.max(0.85, Math.min(1.15, 420 / dpi))\<close>. In JavaScript \<open>420 / 0\<close> is
  \<open>+Infinity\<close>, which \<open>Math.min\<close> cuts to 1.15; HOL's \<open>420 / 0\<close> is 0, so the case
  is written out. \<open>calculateSensitivity\<close> never passes 0.
\<close>

definition getDpiModifier :: "real \<Rightarrow> real" where
  "getDpiModifier d =
    (let standardDpi = 420;
         ratio = standardDpi / d
     in if d = 0 then 1.15 else max 0.85 (min 1.15 ratio))"

definition getiOSModifier :: real where
  "getiOSModifier = 0.92"

subsection \<open>\<open>calculateSensitivity\<close>\<close>

text \<open>
  The platform-specific modifier of lines 153--159. \<open>dpi && \<dots>\<close> is JavaScript
  truthiness: \<open>dpi\<close> is neither \<open>null\<close> nor 0.
\<close>

definition platformModifier :: "CalculationInput \<Rightarrow> real" where
  "platformModifier i =
    (if platform i = ios then getiOSModifier
     else case dpi i of
       None \<Rightarrow> 1.0
     | Some d \<Rightarrow>
         if platform i = android \<and> d \<noteq> 0 \<and> (useCustomDpi i \<or> d > 0)
         then getDpiModifier d else 1.0)"

text \<open>One field of the object literal of lines 162--211.\<close>

definition channelValue :: "CalculationInput \<Rightarrow> Channel \<Rightarrow> int" where
  "channelValue i c =
    clamp (BASE_SENSITIVITIES c *
           PLAYSTYLE_MODIFIERS (playstyle i) c *
           PING_MODIFIERS (pingLevel i) *
           getScreenSizeModifier (screenSize i) *
           getRefreshRateModifier (refreshRate i) *
           platformModifier i)"

text \<open>The result object before the ordering rule is applied (lines 162--211).\<close>

definition initialResult :: "CalculationInput \<Rightarrow> SensitivityResult" where
  "initialResult i =
    \<lparr> general = channelValue i General,
      redDot = channelValue i RedDot,
      scope2x = channelValue i Scope2x,
      scope4x = channelValue i Scope4x,
      awmScope = channelValue i AwmScope,
      freeLook = channelValue i FreeLook \<rparr>"

text \<open>
  The five assignments of lines 215--219, in the order of the source: each reads the
  field the previous one may have changed.
\<close>

definition progressiveDecrease :: "SensitivityResult \<Rightarrow> SensitivityResult" where
  "progressiveDecrease r0 =
    (let r1 = (if redDot r0 \<ge> general r0 then r0\<lparr>redDot := general r0 - 1\<rparr> else r0);
         r2 = (if scope2x r1 \<ge> redDot r1 then r1\<lparr>scope2x := redDot r1 - 1\<rparr> else r1);
         r3 = (if scope4x r2 \<ge> scope2x r2 then r2\<lparr>scope4x := scope2x r2 - 1\<rparr> else r2);
         r4 = (if awmScope r3 \<ge> scope4x r3 then r3\<lparr>awmScope := scope4x r3 - 1\<rparr> else r3);
         r5 = (if freeLook r4 > general r4 then r4\<lparr>freeLook := general r4\<rparr> else r4)
     in r5)"

text \<open>The final clamp of lines 222--227.\<close>

definition finalClamp :: "SensitivityResult \<Rightarrow> SensitivityResult" where
  "finalClamp r =
    \<lparr> general = clamp (of_int (general r)),
      redDot = clamp (of_int (redDot r)),
      scope2x = clamp (of_int (scope2x r)),
      scope4x = clamp (of_int (scope4x r)),
      awmScope = clamp (of_int (awmScope r)),
      freeLook = clamp (of_int (freeLook r)) \<rparr>"

definition calculateSensitivity :: "CalculationInput \<Rightarrow> SensitivityResult" where
  "calculateSensitivity i = finalClamp (progressiveDecrease (initialResult i))"

text \<open>The range of a sensitivity setting in the game.\<close>

definition inRange :: "int \<Rightarrow> bool" where
  "inRange v \<longleftrightarrow> 1 \<le> v \<and> v \<le> 200"

subsection \<open>\<open>generateExplanation\<close>\<close>

text \<open>
  The template literals render numbers with JavaScript's \<open>Number::toString\<close>. For the
  input fields \<open>screenSize\<close>, \<open>refreshRate\<close> and \<open>dpi\<close> that conversion is a
  parameter \<open>num\<close> of the model. The result fields are integers, which JavaScript
  renders in decimal, with a minus sign when negative (for magnitudes below
  \<open>1e21\<close>): that is \<open>intToString\<close>.
\<close>

fun natToString :: "nat \<Rightarrow> string" where
  "natToString n =
    (if n < 10 then [''0123456789'' ! n]
     else natToString (n div 10) @ [''0123456789'' ! (n mod 10)])"

declare natToString.simps [simp del]

definition intToString :: "int \<Rightarrow> string" where
  "intToString v =
    (if v < 0 then ''-'' @ natToString (nat (- v)) else natToString (nat v))"

text \<open>
  The device paragraph of lines 240--254. \<open>if (dpi)\<close> is JavaScript truthiness: \<open>dpi\<close>
  is neither \<open>null\<close> nor 0. Platform \<open>unknown\<close> appends nothing.
\<close>

definition deviceExplanation :: "(real \<Rightarrow> string) \<Rightarrow> CalculationInput \<Rightarrow> string" where
  \<open>deviceExplanation num i =
    (if platform i = ios then
       ''**iOS Optimization:** Your '' @ num (screenSize i) @
       ''" iOS device has excellent touch stability. Sensitivities are '' @
       ''optimized for smooth, consistent tracking which is ideal for '' @
       ''one-taps and drag shots.\<newline>\<newline>''
     else if platform i = android then
       (case dpi i of
          None \<Rightarrow> []
        | Some d \<Rightarrow>
            if d = 0 then []
            else
              (let dpiLevel =
                 (if d > 480 then ''high'' else if d < 360 then ''low'' else ''standard'')
               in ''**Android DPI Adjustment:** Your device runs at '' @ num d @
                  '' DPI ('' @ dpiLevel @ ''). '' @
                  (if dpiLevel = ''high'' then
                     ''Higher DPI means touch input is more sensitive, so we've lowered '' @
                     ''the in-game sensitivity to compensate.''
                   else if dpiLevel = ''low'' then
                     ''Lower DPI means touch input is less responsive, so we've increased '' @
                     ''sensitivity slightly.''
                   else
                     ''This is a standard DPI range, providing balanced performance.'') @
                  ''\<newline>\<newline>''))
     else [])\<close>

text \<open>The screen-size paragraph of lines 256--263.\<close>

definition screenExplanation :: "(real \<Rightarrow> string) \<Rightarrow> real \<Rightarrow> string" where
  \<open>screenExplanation num s =
    ''**Screen Size ('' @ num s @ ''"):** '' @
    (if s < 6.0 then
       ''Compact screen detected. Slightly higher sensitivity helps with '' @
       ''quick movements in limited space.''
     else if s > 6.8 then
       ''Large screen detected. Lower sensitivity provides better precision '' @
       ''on bigger displays.''
     else
       ''Standard screen size provides balanced control.'') @
    ''\<newline>\<newline>''\<close>

text \<open>The refresh-rate paragraph of lines 265--272.\<close>

definition refreshExplanation :: "(real \<Rightarrow> string) \<Rightarrow> real \<Rightarrow> string" where
  \<open>refreshExplanation num r =
    ''**Refresh Rate ('' @ num r @ ''Hz):** '' @
    (if r \<ge> 120 then
       ''High refresh rate allows for more responsive controls. You can '' @
       ''handle slightly higher sensitivities with smoother tracking.''
     else if r \<ge> 90 then
       ''Good refresh rate provides smooth gameplay. Sensitivities are '' @
       ''optimized for this range.''
     else
       ''Standard 60Hz display. Conservative sensitivities ensure consistent '' @
       ''control.'') @
    ''\<newline>\<newline>''\<close>

fun playstyleDescriptions :: "Playstyle \<Rightarrow> string" where
  \<open>playstyleDescriptions freestyle =
      ''**Freestyle Profile:** Maximum sensitivity for flashy plays and '' @
      ''extreme speed. Perfect for players who love 360 flicks, fast '' @
      ''drag shots, and unpredictable movement. Requires excellent finger '' @
      ''control.''\<close>
| \<open>playstyleDescriptions instaplayer =
      ''**Instaplayer Profile:** Very high sensitivity for instant reactions. '' @
      ''Designed for aggressive close-combat dominators who need lightning-fast '' @
      ''target acquisition and quick scope-ins.''\<close>
| \<open>playstyleDescriptions rusher =
      ''**Rusher Profile:** High sensitivity for fast aggressive gameplay. '' @
      ''Quick flicks and aggressive pushes will feel natural. Good for '' @
      ''players who like to rush and fight up close.''\<close>
| \<open>playstyleDescriptions balanced =
      ''**Balanced Profile:** Well-rounded sensitivities that work for '' @
      ''all situations. Good for players who adapt their playstyle mid-match. '' @
      ''Smooth drag shots and consistent one-taps.''\<close>
| \<open>playstyleDescriptions onetap =
      ''**One-Tap/Headshot Profile:** Controlled sensitivities optimized '' @
      ''for precise headshots. Lower scope values help land consistent '' @
      ''one-taps. Ideal for ranked and competitive play.''\<close>
| \<open>playstyleDescriptions sniper =
      ''**Sniper Profile:** Very controlled scope sensitivities, especially '' @
      ''for AWM. Designed for patient, accurate long-range gameplay with '' @
      ''maximum precision.''\<close>

fun pingDescriptions :: "PingLevel \<Rightarrow> string" where
  \<open>pingDescriptions low =
      ''**Low Ping (0-40ms):** Excellent connection! Lower sensitivity '' @
      ''compensation applied since your inputs register instantly.''\<close>
| \<open>pingDescriptions medium =
      ''**Medium Ping (41-80ms):** Moderate latency. Sensitivities are '' @
      ''at baseline for this range.''\<close>
| \<open>pingDescriptions high =
      ''**High Ping (81+ms):** Higher latency detected. Slightly increased '' @
      ''sensitivity helps compensate for delayed input registration.''\<close>

text \<open>The result summary of lines 293--300.\<close>

definition resultSummary :: "SensitivityResult \<Rightarrow> string" where
  \<open>resultSummary r =
    ''---\<newline>\<newline>**Your Sensitivity Summary:**\<newline>'' @
    ''- General: '' @ intToString (general r) @ '' (highest for overall control)\<newline>'' @
    ''- Red Dot: '' @ intToString (redDot r) @ '' (close to mid-range tracking)\<newline>'' @
    ''- 2x Scope: '' @ intToString (scope2x r) @ '' (mid-range precision)\<newline>'' @
    ''- 4x Scope: '' @ intToString (scope4x r) @ '' (long-range control)\<newline>'' @
    ''- AWM Scope: '' @ intToString (awmScope r) @ '' (sniper precision)\<newline>'' @
    ''- Free Look: '' @ intToString (freeLook r) @
    '' (situational awareness)\<newline>\<newline>''\<close>

text \<open>
  The closing paragraph of line 302. The source file holds the two characters
  \<open>U+00C2 U+00B1\<close> before the 2.
\<close>

definition testingGuide :: string where
  \<open>testingGuide =
      ''**Testing Guide:** Head to the Training Ground and test these '' @
      ''settings for 5-10 minutes. If movements feel too fast or slow, '' @
      ''adjust each value by '' @
      [CHR 0xC2, CHR 0xB1] @
      ''2 until comfortable.''\<close>

definition generateExplanation ::
  "(real \<Rightarrow> string) \<Rightarrow> CalculationInput \<Rightarrow> SensitivityResult \<Rightarrow> string" where
  \<open>generateExplanation num i r =
    deviceExplanation num i @
    screenExplanation num (screenSize i) @
    refreshExplanation num (refreshRate i) @
    playstyleDescriptions (playstyle i) @ ''\<newline>\<newline>'' @
    pingDescriptions (pingLevel i) @ ''\<newline>\<newline>'' @
    resultSummary r @
    testingGuide\<close>

subsection \<open>Concrete inputs\<close>

text \<open>
  An input whose general and redDot channels both saturate at 200 before the ordering
  rule: freestyle, high ping, a small screen, 144 Hz and a low-DPI Android device.
\<close>

definition tieInput :: CalculationInput where
  "tieInput = \<lparr> platform = android, playstyle = freestyle, pingLevel = high,
      screenSize = 5.0, refreshRate = 144, dpi = Some 300, useCustomDpi = False \<rparr>"

text \<open>The scenario of the specification: an iOS device, balanced, medium ping.\<close>

definition fixtureInput :: CalculationInput where
  "fixtureInput = \<lparr> platform = ios, playstyle = balanced, pingLevel = medium,
      screenSize = 6.7, refreshRate = 60, dpi = None, useCustomDpi = False \<rparr>"

text \<open>
  A number rendering for evaluating \<open>generateExplanation\<close> on whole numbers, where it
  agrees with JavaScript.
\<close>

definition wholeToString :: "real \<Rightarrow> string" where
  "wholeToString x = intToString \<lfloor>x\<rfloor>"

section \<open>Properties of \<open>clamp\<close>\<close>

lemma clamp_inRange: "inRange (clamp v)"
  by (simp add: clamp_def inRange_def)

lemma clamp_lower: "1 \<le> clamp v"
  by (simp add: clamp_def)

lemma clamp_upper: "clamp v \<le> 200"
  by (simp add: clamp_def)

lemma clamp_mono: "x \<le> y \<Longrightarrow> clamp x \<le> clamp y"
  unfolding clamp_def using round_mono [of x y] by linarith

lemma clamp_of_int: "clamp (of_int n) = min 200 (max 1 n)"
  by (simp add: clamp_def)

lemma clamp_idem: "clamp (of_int (clamp v)) = clamp v"
  by (simp add: clamp_def)

section \<open>Range of the result\<close>

text \<open>
  C1. Every one of the six fields of the result of \<open>calculateSensitivity\<close> is an
  integer between 1 and 200 inclusive; it holds for every input, valid or not, because
  the last thing done to each field is \<open>clamp\<close>.
\<close>

theorem calculateSensitivity_in_range:
  "inRange (general (calculateSensitivity i)) \<and>
   inRange (redDot (calculateSensitivity i)) \<and>
   inRange (scope2x (calculateSensitivity i)) \<and>
   inRange (scope4x (calculateSensitivity i)) \<and>
   inRange (awmScope (calculateSensitivity i)) \<and>
   inRange (freeLook (calculateSensitivity i))"
  by (simp add: calculateSensitivity_def finalClamp_def clamp_inRange)

section \<open>The ordering rule\<close>

lemma progressiveDecrease_general: "general (progressiveDecrease r) = general r"
  by (simp add: progressiveDecrease_def Let_def)

text \<open>Before the final clamp the five assignments leave a strictly descending chain.\<close>

lemma progressiveDecrease_chain:
  "redDot (progressiveDecrease r) < general (progressiveDecrease r) \<and>
   scope2x (progressiveDecrease r) < redDot (progressiveDecrease r) \<and>
   scope4x (progressiveDecrease r) < scope2x (progressiveDecrease r) \<and>
   awmScope (progressiveDecrease r) < scope4x (progressiveDecrease r) \<and>
   freeLook (progressiveDecrease r) \<le> general (progressiveDecrease r)"
  by (simp add: progressiveDecrease_def Let_def)

lemma clamp_pair:
  assumes "b < a" and "a \<le> 200"
  shows "clamp (of_int b) \<le> clamp (of_int a) \<and>
         (clamp (of_int b) < clamp (of_int a) \<or> clamp (of_int b) = 1)"
  using assms by (auto simp add: clamp_of_int)

lemma initial_general_upper: "general (initialResult i) \<le> 200"
  by (simp add: initialResult_def channelValue_def clamp_upper)

lemma calc_general: "general (calculateSensitivity i) = channelValue i General"
  by (simp add: calculateSensitivity_def finalClamp_def progressiveDecrease_general
      initialResult_def channelValue_def clamp_idem)

text \<open>
  C2. In the result of \<open>calculateSensitivity\<close>,
  general \<open>\<ge>\<close> redDot \<open>\<ge>\<close> scope2x \<open>\<ge>\<close> scope4x \<open>\<ge>\<close> awmScope; two adjacent channels are
  equal only when the lower one is at the floor value 1; and freeLook \<open>\<le>\<close> general.
  It holds for every input.
\<close>

theorem calculateSensitivity_ordering:
  "redDot (calculateSensitivity i) \<le> general (calculateSensitivity i) \<and>
   (redDot (calculateSensitivity i) < general (calculateSensitivity i) \<or>
      redDot (calculateSensitivity i) = 1) \<and>
   scope2x (calculateSensitivity i) \<le> redDot (calculateSensitivity i) \<and>
   (scope2x (calculateSensitivity i) < redDot (calculateSensitivity i) \<or>
      scope2x (calculateSensitivity i) = 1) \<and>
   scope4x (calculateSensitivity i) \<le> scope2x (calculateSensitivity i) \<and>
   (scope4x (calculateSensitivity i) < scope2x (calculateSensitivity i) \<or>
      scope4x (calculateSensitivity i) = 1) \<and>
   awmScope (calculateSensitivity i) \<le> scope4x (calculateSensitivity i) \<and>
   (awmScope (calculateSensitivity i) < scope4x (calculateSensitivity i) \<or>
      awmScope (calculateSensitivity i) = 1) \<and>
   freeLook (calculateSensitivity i) \<le> general (calculateSensitivity i)"
proof -
  define r where "r = progressiveDecrease (initialResult i)"
  have g: "general r \<le> 200"
    by (simp add: r_def progressiveDecrease_general initial_general_upper)
  have c: "redDot r < general r" "scope2x r < redDot r" "scope4x r < scope2x r"
    "awmScope r < scope4x r" "freeLook r \<le> general r"
    using progressiveDecrease_chain [of "initialResult i"] by (simp_all add: r_def)
  have f: "calculateSensitivity i = finalClamp r"
    by (simp add: calculateSensitivity_def r_def)
  have 1: "clamp (of_int (redDot r)) \<le> clamp (of_int (general r)) \<and>
      (clamp (of_int (redDot r)) < clamp (of_int (general r)) \<or>
       clamp (of_int (redDot r)) = 1)"
    using c g by (intro clamp_pair) simp_all
  have 2: "clamp (of_int (scope2x r)) \<le> clamp (of_int (redDot r)) \<and>
      (clamp (of_int (scope2x r)) < clamp (of_int (redDot r)) \<or>
       clamp (of_int (scope2x r)) = 1)"
    using c g by (intro clamp_pair) simp_all
  have 3: "clamp (of_int (scope4x r)) \<le> clamp (of_int (scope2x r)) \<and>
      (clamp (of_int (scope4x r)) < clamp (of_int (scope2x r)) \<or>
       clamp (of_int (scope4x r)) = 1)"
    using c g by (intro clamp_pair) simp_all
  have 4: "clamp (of_int (awmScope r)) \<le> clamp (of_int (scope4x r)) \<and>
      (clamp (of_int (awmScope r)) < clamp (of_int (scope4x r)) \<or>
       clamp (of_int (awmScope r)) = 1)"
    using c g by (intro clamp_pair) simp_all
  have 5: "clamp (of_int (freeLook r)) \<le> clamp (of_int (general r))"
    using c by (intro clamp_mono) simp
  show ?thesis
    using 1 2 3 4 5 by (simp add: f finalClamp_def)
qed

section \<open>Bounds on the modifiers\<close>

lemma PING_MODIFIERS_lower: "0.95 \<le> PING_MODIFIERS p"
  by (cases p) simp_all

lemma getScreenSizeModifier_lower: "0.92 \<le> getScreenSizeModifier s"
  by (simp add: getScreenSizeModifier_def)

lemma getRefreshRateModifier_lower: "0.95 \<le> getRefreshRateModifier s"
  by (simp add: getRefreshRateModifier_def)

lemma getDpiModifier_lower: "0.85 \<le> getDpiModifier d"
  unfolding getDpiModifier_def Let_def
  by (auto simp only: max.cobounded1 split: if_split) simp

lemma platformModifier_lower: "0.85 \<le> platformModifier i"
proof (cases "platformModifier i = getDpiModifier (the (dpi i))")
  case True
  then show ?thesis by (simp only: getDpiModifier_lower)
next
  case False
  then show ?thesis
    by (auto simp add: platformModifier_def getiOSModifier_def split: option.splits if_splits)
qed

lemma general_factor_lower:
  "156.75 \<le> BASE_SENSITIVITIES General * PLAYSTYLE_MODIFIERS p General"
  by (cases p) simp_all

lemma general_factor_nonneg:
  "0 \<le> BASE_SENSITIVITIES General * PLAYSTYLE_MODIFIERS p General"
  by (rule order_trans [OF _ general_factor_lower]) simp

lemma product_lower:
  fixes a b c d e :: real
  assumes "la \<le> a" "lb \<le> b" "lc \<le> c" "ld \<le> d" "le \<le> e"
    and "0 \<le> la" "0 \<le> lb" "0 \<le> lc" "0 \<le> ld" "0 \<le> le"
  shows "la * lb * lc * ld * le \<le> a * b * c * d * e"
  using assms by (intro mult_mono mult_nonneg_nonneg) auto

text \<open>
  With every modifier at its smallest the general channel is
  \<open>165 \<times> 0.95 \<times> 0.95 \<times> 0.92 \<times> 0.95 \<times> 0.85 \<approx> 110.6\<close>, so it never comes near the floor.
\<close>

lemma general_initial_lower: "111 \<le> channelValue i General"
proof -
  let ?x = "BASE_SENSITIVITIES General * PLAYSTYLE_MODIFIERS (playstyle i) General *
           PING_MODIFIERS (pingLevel i) * getScreenSizeModifier (screenSize i) *
           getRefreshRateModifier (refreshRate i) * platformModifier i"
  have "156.75 * 0.95 * 0.92 * 0.95 * 0.85 \<le> ?x"
    by (rule product_lower [OF general_factor_lower PING_MODIFIERS_lower
          getScreenSizeModifier_lower getRefreshRateModifier_lower platformModifier_lower])
      simp_all
  moreover have "(110.5::real) \<le> 156.75 * 0.95 * 0.92 * 0.95 * 0.85" by simp
  ultimately have "(110.5::real) \<le> ?x" by (rule order_trans [rotated])
  then have "round (110.5::real) \<le> round ?x" by (rule round_mono)
  then have "111 \<le> round ?x" by (simp add: round_def)
  then show ?thesis by (simp add: channelValue_def clamp_def)
qed

text \<open>The same bound for any channel; the smallest is awmScope for a sniper.\<close>

lemma channel_factor_lower:
  "82.5 \<le> BASE_SENSITIVITIES c * PLAYSTYLE_MODIFIERS p c"
  by (cases p; cases c) simp_all

lemma channelValue_lower: "58 \<le> channelValue i c"
proof -
  let ?x = "BASE_SENSITIVITIES c * PLAYSTYLE_MODIFIERS (playstyle i) c *
           PING_MODIFIERS (pingLevel i) * getScreenSizeModifier (screenSize i) *
           getRefreshRateModifier (refreshRate i) * platformModifier i"
  have "82.5 * 0.95 * 0.92 * 0.95 * 0.85 \<le> ?x"
    by (rule product_lower [OF channel_factor_lower PING_MODIFIERS_lower
          getScreenSizeModifier_lower getRefreshRateModifier_lower platformModifier_lower])
      simp_all
  moreover have "(57.5::real) \<le> 82.5 * 0.95 * 0.92 * 0.95 * 0.85" by simp
  ultimately have "(57.5::real) \<le> ?x" by (rule order_trans [rotated])
  then have "round (57.5::real) \<le> round ?x" by (rule round_mono)
  then have "58 \<le> round ?x" by (simp add: round_def)
  then show ?thesis by (simp add: channelValue_def clamp_def)
qed

section \<open>Strict descent\<close>

text \<open>
  With the tables of the source no channel comes near the floor, so the final clamp
  changes nothing and the five scope channels are strictly descending for every input.
\<close>

lemma progressiveDecrease_lower:
  assumes "5 \<le> general r" "5 \<le> redDot r" "5 \<le> scope2x r" "5 \<le> scope4x r"
    "5 \<le> awmScope r"
  shows "1 \<le> awmScope (progressiveDecrease r)"
  using assms by (simp add: progressiveDecrease_def Let_def)

lemma strictly_descending:
  "awmScope (calculateSensitivity i) < scope4x (calculateSensitivity i) \<and>
   scope4x (calculateSensitivity i) < scope2x (calculateSensitivity i) \<and>
   scope2x (calculateSensitivity i) < redDot (calculateSensitivity i) \<and>
   redDot (calculateSensitivity i) < general (calculateSensitivity i)"
proof -
  define r where "r = progressiveDecrease (initialResult i)"
  have g: "general r \<le> 200"
    by (simp add: r_def progressiveDecrease_general initial_general_upper)
  have c: "redDot r < general r" "scope2x r < redDot r" "scope4x r < scope2x r"
    "awmScope r < scope4x r"
    using progressiveDecrease_chain [of "initialResult i"] by (simp_all add: r_def)
  have l: "5 \<le> channelValue i c" for c
    using channelValue_lower [of i c] by linarith
  have "1 \<le> awmScope r"
    unfolding r_def by (intro progressiveDecrease_lower) (simp_all add: initialResult_def l)
  with g c show ?thesis
    by (simp add: calculateSensitivity_def r_def [symmetric] finalClamp_def clamp_of_int)
qed

section \<open>Repair of a tie\<close>

lemma tieInput_values:
  "channelValue tieInput General = 200" "channelValue tieInput RedDot = 200"
  by (simp_all add: channelValue_def tieInput_def clamp_def round_def platformModifier_def
       getDpiModifier_def getScreenSizeModifier_def getRefreshRateModifier_def)

text \<open>
  C3. Whenever the values computed before the ordering rule have redDot \<open>\<ge>\<close> general
  (a tie included), the final result has redDot = general \<open>-\<close> 1.
\<close>

theorem tie_repaired:
  "general (initialResult i) \<le> redDot (initialResult i) \<Longrightarrow>
   redDot (calculateSensitivity i) = general (calculateSensitivity i) - 1"
  using general_initial_lower [of i] initial_general_upper [of i]
  by (simp add: calculateSensitivity_def finalClamp_def progressiveDecrease_def Let_def
      clamp_of_int initialResult_def)

theorem tie_repaired_witness:
  "general (initialResult tieInput) \<le> redDot (initialResult tieInput) \<and>
   general (calculateSensitivity tieInput) = 200 \<and>
   redDot (calculateSensitivity tieInput) = 199"
proof -
  have h: "general (initialResult tieInput) \<le> redDot (initialResult tieInput)"
    by (simp add: initialResult_def tieInput_values)
  have g: "general (calculateSensitivity tieInput) = 200"
    by (simp add: calc_general tieInput_values)
  show ?thesis using h g tie_repaired [OF h] by simp
qed

section \<open>The regression fixture\<close>

text \<open>
  C4. For the iOS, balanced, medium-ping, 6.7 inch, 60 Hz input the general field is
  the rounded and clamped product \<open>165 \<times> 1.03 \<times> 1.0 \<times> 0.96 \<times> 0.95 \<times> 0.92\<close>. The product
  is 142.594848, approximately 142 as the specification says, and its rounding, the
  value of the field, is 143.
\<close>

theorem fixture_general:
  "general (calculateSensitivity fixtureInput) =
     clamp (165 * 1.03 * 1.0 * 0.96 * 0.95 * 0.92) \<and>
   165 * 1.03 * 1.0 * 0.96 * 0.95 * 0.92 = (142.594848 :: real) \<and>
   general (calculateSensitivity fixtureInput) = 143"
  by (simp add: calc_general channelValue_def fixtureInput_def platformModifier_def
      getiOSModifier_def getScreenSizeModifier_def getRefreshRateModifier_def clamp_def
      round_def)

text \<open>The whole result at that input; freeLook is capped at general.\<close>

lemma fixture_result:
  "calculateSensitivity fixtureInput =
     \<lparr> general = 143, redDot = 138, scope2x = 125, scope4x = 112, awmScope = 95,
       freeLook = 143 \<rparr>"
  by (simp add: calculateSensitivity_def initialResult_def channelValue_def fixtureInput_def
      platformModifier_def getiOSModifier_def getScreenSizeModifier_def
      getRefreshRateModifier_def clamp_def finalClamp_def progressiveDecrease_def Let_def
      round_def)

section \<open>Boundaries of the step functions\<close>

text \<open>
  C5, as stated: at every boundary of the two step functions the branch taken is the
  lower-sensitivity one of the two adjacent branches. It fails for the screen size:
  at 6.5 the branch taken gives 1.0, and the adjacent branch, which ends at 7.0, gives
  the lower 0.96.
\<close>

theorem screen_boundary_not_lower:
  "getScreenSizeModifier 6.5 = 1.0 \<and> getScreenSizeModifier 7.0 = 0.96 \<and>
   \<not> getScreenSizeModifier 6.5 < getScreenSizeModifier 7.0"
  by (simp add: getScreenSizeModifier_def)

text \<open>
  C5, amended: at every boundary the branch with the inclusive upper bound is taken.
  For the refresh rate it is the lower-sensitivity branch: every larger rate gets a
  strictly larger modifier. For the screen size it is the higher-sensitivity branch:
  every larger screen gets a strictly smaller modifier.
\<close>

theorem step_boundaries:
  "getScreenSizeModifier 5.5 = 1.08 \<and> getScreenSizeModifier 6.0 = 1.04 \<and>
   getScreenSizeModifier 6.5 = 1.0 \<and> getScreenSizeModifier 7.0 = 0.96 \<and>
   getRefreshRateModifier 60 = 0.95 \<and> getRefreshRateModifier 90 = 1.0 \<and>
   getRefreshRateModifier 120 = 1.05 \<and>
   (b \<in> {60, 90, 120} \<and> b < x \<longrightarrow>
      getRefreshRateModifier b < getRefreshRateModifier x) \<and>
   (c \<in> {5.5, 6.0, 6.5, 7.0} \<and> c < y \<longrightarrow>
      getScreenSizeModifier y < getScreenSizeModifier c)"
  by (auto simp add: getScreenSizeModifier_def getRefreshRateModifier_def)

theorem step_boundaries_witness:
  "(120::real) \<in> {60, 90, 120} \<and> (120::real) < 144 \<and>
   getRefreshRateModifier 120 < getRefreshRateModifier 144 \<and>
   (6.5::real) \<in> {5.5, 6.0, 6.5, 7.0} \<and> (6.5::real) < 6.7 \<and>
   getScreenSizeModifier 6.7 < getScreenSizeModifier 6.5"
  using step_boundaries [of 120 144 "6.5" "6.7"] by simp

section \<open>Monotonicity in the ping level\<close>

lemma channelValue_ping_mono:
  assumes "PING_MODIFIERS p \<le> PING_MODIFIERS q"
  shows "channelValue (i\<lparr>pingLevel := p\<rparr>) General
           \<le> channelValue (i\<lparr>pingLevel := q\<rparr>) General"
proof -
  have s: "0 \<le> getScreenSizeModifier (screenSize i)"
    by (rule order_trans [OF _ getScreenSizeModifier_lower]) simp
  have r: "0 \<le> getRefreshRateModifier (refreshRate i)"
    by (rule order_trans [OF _ getRefreshRateModifier_lower]) simp
  have m: "0 \<le> platformModifier i"
    by (rule order_trans [OF _ platformModifier_lower]) simp
  have e: "channelValue (i\<lparr>pingLevel := l\<rparr>) General =
      clamp (BASE_SENSITIVITIES General * PLAYSTYLE_MODIFIERS (playstyle i) General *
             PING_MODIFIERS l * getScreenSizeModifier (screenSize i) *
             getRefreshRateModifier (refreshRate i) * platformModifier i)" for l
    by (simp add: channelValue_def platformModifier_def split: option.split)
  show ?thesis
    unfolding e
    by (intro clamp_mono mult_right_mono mult_left_mono assms general_factor_nonneg s r m)
qed

text \<open>
  C6. With every other field fixed, the general field does not decrease as the ping
  level goes from low to medium to high.
\<close>

theorem ping_monotone:
  "general (calculateSensitivity (i\<lparr>pingLevel := low\<rparr>))
     \<le> general (calculateSensitivity (i\<lparr>pingLevel := medium\<rparr>)) \<and>
   general (calculateSensitivity (i\<lparr>pingLevel := medium\<rparr>))
     \<le> general (calculateSensitivity (i\<lparr>pingLevel := high\<rparr>))"
  by (simp add: calc_general channelValue_ping_mono)

section \<open>The \<open>useCustomDpi\<close> flag\<close>

text \<open>
  C9. When \<open>dpi\<close> is \<open>null\<close> or positive, two inputs that differ only in
  \<open>useCustomDpi\<close> give the same result.
\<close>

theorem useCustomDpi_irrelevant:
  "(case dpi i of None \<Rightarrow> True | Some d \<Rightarrow> 0 < d) \<Longrightarrow>
   calculateSensitivity (i\<lparr>useCustomDpi := a\<rparr>) =
   calculateSensitivity (i\<lparr>useCustomDpi := b\<rparr>)"
  by (simp add: calculateSensitivity_def initialResult_def channelValue_def
      platformModifier_def split: option.splits)

theorem useCustomDpi_irrelevant_witness:
  "(case dpi tieInput of None \<Rightarrow> True | Some d \<Rightarrow> 0 < d) \<and>
   calculateSensitivity (tieInput\<lparr>useCustomDpi := True\<rparr>) =
   calculateSensitivity (tieInput\<lparr>useCustomDpi := False\<rparr>)"
proof -
  have h: "case dpi tieInput of None \<Rightarrow> True | Some d \<Rightarrow> 0 < d"
    by (simp add: tieInput_def)
  show ?thesis using h useCustomDpi_irrelevant [OF h, of True False] by simp
qed

text \<open>
  Outside that contract the flag is read: with a negative \<open>dpi\<close> it decides whether
  \<open>getDpiModifier\<close> is applied.
\<close>

lemma useCustomDpi_read_for_negative_dpi:
  "platformModifier (tieInput\<lparr>dpi := Some (- 100), useCustomDpi := True\<rparr>) = 0.85 \<and>
   platformModifier (tieInput\<lparr>dpi := Some (- 100), useCustomDpi := False\<rparr>) = 1.0"
  by (simp add: platformModifier_def tieInput_def getDpiModifier_def)

section \<open>The explanation text\<close>

lemma intToString_examples:
  "intToString 143 = ''143''" "intToString 200 = ''200''" "intToString 1 = ''1''"
  "intToString 0 = ''0''" "intToString (- 3) = ''-3''"
  by (simp_all add: intToString_def natToString.simps)

lemma generateExplanation_tail:
  "generateExplanation num i r =
     (deviceExplanation num i @ screenExplanation num (screenSize i) @
      refreshExplanation num (refreshRate i) @
      playstyleDescriptions (playstyle i) @ ''\<newline>\<newline>'' @
      pingDescriptions (pingLevel i) @ ''\<newline>\<newline>'') @
     resultSummary r @ testingGuide"
  unfolding generateExplanation_def by (simp only: append_assoc)

lemma refreshExplanation_120:
  "refreshExplanation num 120 =
     ''**Refresh Rate ('' @ num 120 @ ''Hz):** '' @
     ''High refresh rate allows for more responsive controls. You can '' @
     ''handle slightly higher sensitivities with smoother tracking.'' @
     ''\<newline>\<newline>''"
  by (simp add: refreshExplanation_def)

lemma refreshExplanation_90:
  "refreshExplanation num 90 =
     ''**Refresh Rate ('' @ num 90 @ ''Hz):** '' @
     ''Good refresh rate provides smooth gameplay. Sensitivities are '' @
     ''optimized for this range.'' @
     ''\<newline>\<newline>''"
  by (simp add: refreshExplanation_def)

text \<open>
  C7. The text returned by \<open>generateExplanation\<close> ends with the summary section, which
  holds the six result values verbatim, followed by the testing guide. At the exact
  threshold \<open>refreshRate = 120\<close> the refresh-rate paragraph is the high-refresh-rate
  one, and at \<open>refreshRate = 90\<close> it is the one for 90 to 119 Hz.
\<close>

theorem explanation_summary_and_refresh:
  \<open>(\<exists>pre. generateExplanation num i r = pre @
      ''---\<newline>\<newline>**Your Sensitivity Summary:**\<newline>'' @
      ''- General: '' @ intToString (general r) @ '' (highest for overall control)\<newline>'' @
      ''- Red Dot: '' @ intToString (redDot r) @ '' (close to mid-range tracking)\<newline>'' @
      ''- 2x Scope: '' @ intToString (scope2x r) @ '' (mid-range precision)\<newline>'' @
      ''- 4x Scope: '' @ intToString (scope4x r) @ '' (long-range control)\<newline>'' @
      ''- AWM Scope: '' @ intToString (awmScope r) @ '' (sniper precision)\<newline>'' @
      ''- Free Look: '' @ intToString (freeLook r) @
      '' (situational awareness)\<newline>\<newline>'' @ testingGuide) \<and>
   (refreshRate i = 120 \<longrightarrow>
      (\<exists>post. generateExplanation num i r =
         deviceExplanation num i @ screenExplanation num (screenSize i) @
         ''**Refresh Rate ('' @ num 120 @ ''Hz):** '' @
         ''High refresh rate allows for more responsive controls. You can '' @
         ''handle slightly higher sensitivities with smoother tracking.'' @
         ''\<newline>\<newline>'' @ post)) \<and>
   (refreshRate i = 90 \<longrightarrow>
      (\<exists>post. generateExplanation num i r =
         deviceExplanation num i @ screenExplanation num (screenSize i) @
         ''**Refresh Rate ('' @ num 90 @ ''Hz):** '' @
         ''Good refresh rate provides smooth gameplay. Sensitivities are '' @
         ''optimized for this range.'' @
         ''\<newline>\<newline>'' @ post))\<close>
proof (intro conjI impI)
  show \<open>\<exists>pre. generateExplanation num i r = pre @
      ''---\<newline>\<newline>**Your Sensitivity Summary:**\<newline>'' @
      ''- General: '' @ intToString (general r) @ '' (highest for overall control)\<newline>'' @
      ''- Red Dot: '' @ intToString (redDot r) @ '' (close to mid-range tracking)\<newline>'' @
      ''- 2x Scope: '' @ intToString (scope2x r) @ '' (mid-range precision)\<newline>'' @
      ''- 4x Scope: '' @ intToString (scope4x r) @ '' (long-range control)\<newline>'' @
      ''- AWM Scope: '' @ intToString (awmScope r) @ '' (sniper precision)\<newline>'' @
      ''- Free Look: '' @ intToString (freeLook r) @
      '' (situational awareness)\<newline>\<newline>'' @ testingGuide\<close>
    by (rule exI, subst generateExplanation_tail, rule arg_cong [where f = "(@) _"])
       (simp only: resultSummary_def append_assoc)
next
  assume "refreshRate i = 120"
  then show \<open>\<exists>post. generateExplanation num i r =
         deviceExplanation num i @ screenExplanation num (screenSize i) @
         ''**Refresh Rate ('' @ num 120 @ ''Hz):** '' @
         ''High refresh rate allows for more responsive controls. You can '' @
         ''handle slightly higher sensitivities with smoother tracking.'' @
         ''\<newline>\<newline>'' @ post\<close>
    by (simp only: generateExplanation_def refreshExplanation_120 append_assoc) blast
next
  assume "refreshRate i = 90"
  then show \<open>\<exists>post. generateExplanation num i r =
         deviceExplanation num i @ screenExplanation num (screenSize i) @
         ''**Refresh Rate ('' @ num 90 @ ''Hz):** '' @
         ''Good refresh rate provides smooth gameplay. Sensitivities are '' @
         ''optimized for this range.'' @
         ''\<newline>\<newline>'' @ post\<close>
    by (simp only: generateExplanation_def refreshExplanation_90 append_assoc) blast
qed

theorem explanation_summary_and_refresh_witness:
  \<open>refreshRate (fixtureInput\<lparr>refreshRate := 120\<rparr>) = 120 \<and>
   (\<exists>post. generateExplanation wholeToString (fixtureInput\<lparr>refreshRate := 120\<rparr>)
        (calculateSensitivity fixtureInput) =
      deviceExplanation wholeToString (fixtureInput\<lparr>refreshRate := 120\<rparr>) @
      screenExplanation wholeToString (screenSize (fixtureInput\<lparr>refreshRate := 120\<rparr>)) @
      ''**Refresh Rate ('' @ wholeToString 120 @ ''Hz):** '' @
      ''High refresh rate allows for more responsive controls. You can '' @
      ''handle slightly higher sensitivities with smoother tracking.'' @
      ''\<newline>\<newline>'' @ post) \<and>
   refreshRate (fixtureInput\<lparr>refreshRate := 90\<rparr>) = 90 \<and>
   (\<exists>post. generateExplanation wholeToString (fixtureInput\<lparr>refreshRate := 90\<rparr>)
        (calculateSensitivity fixtureInput) =
      deviceExplanation wholeToString (fixtureInput\<lparr>refreshRate := 90\<rparr>) @
      screenExplanation wholeToString (screenSize (fixtureInput\<lparr>refreshRate := 90\<rparr>)) @
      ''**Refresh Rate ('' @ wholeToString 90 @ ''Hz):** '' @
      ''Good refresh rate provides smooth gameplay. Sensitivities are '' @
      ''optimized for this range.'' @
      ''\<newline>\<newline>'' @ post)\<close>
proof -
  have a: "refreshRate (fixtureInput\<lparr>refreshRate := 120\<rparr>) = 120" by simp
  have b: "refreshRate (fixtureInput\<lparr>refreshRate := 90\<rparr>) = 90" by simp
  note t = explanation_summary_and_refresh [where num = wholeToString
      and r = "calculateSensitivity fixtureInput"]
  from t [of "fixtureInput\<lparr>refreshRate := 120\<rparr>"] t [of "fixtureInput\<lparr>refreshRate := 90\<rparr>"] a b
  show ?thesis by blast
qed

text \<open>
  The other thresholds of the text: exactly 6.0 and exactly 6.8 inches are a standard
  screen, and exactly 360 and exactly 480 DPI are the standard tier.
\<close>

lemma explanation_other_thresholds:
  \<open>screenExplanation num 6.0 =
     ''**Screen Size ('' @ num 6.0 @ ''"):** '' @
     ''Standard screen size provides balanced control.'' @ ''\<newline>\<newline>''\<close>
  \<open>screenExplanation num 6.8 =
     ''**Screen Size ('' @ num 6.8 @ ''"):** '' @
     ''Standard screen size provides balanced control.'' @ ''\<newline>\<newline>''\<close>
  \<open>deviceExplanation num (tieInput\<lparr>dpi := Some 360\<rparr>) =
     ''**Android DPI Adjustment:** Your device runs at '' @ num 360 @
     '' DPI (standard). '' @
     ''This is a standard DPI range, providing balanced performance.'' @
     ''\<newline>\<newline>''\<close>
  \<open>deviceExplanation num (tieInput\<lparr>dpi := Some 480\<rparr>) =
     ''**Android DPI Adjustment:** Your device runs at '' @ num 480 @
     '' DPI (standard). '' @
     ''This is a standard DPI range, providing balanced performance.'' @
     ''\<newline>\<newline>''\<close>
  by (simp_all add: screenExplanation_def deviceExplanation_def tieInput_def)

section \<open>Inputs without a device paragraph\<close>

lemma deviceExplanation_empty:
  "platform i = unknown \<or> (platform i = android \<and> (dpi i = None \<or> dpi i = Some 0)) \<Longrightarrow>
   deviceExplanation num i = []"
  by (auto simp add: deviceExplanation_def)

text \<open>
  C10. When the platform is \<open>unknown\<close>, or is \<open>android\<close> with \<open>dpi\<close> \<open>null\<close> or 0, the
  text has no device paragraph: it is the screen-size paragraph followed by the
  remaining sections, and so begins with the heading of the screen-size paragraph.
\<close>

theorem no_device_section:
  \<open>platform i = unknown \<or> (platform i = android \<and> (dpi i = None \<or> dpi i = Some 0)) \<Longrightarrow>
   generateExplanation num i r =
     screenExplanation num (screenSize i) @
     refreshExplanation num (refreshRate i) @
     playstyleDescriptions (playstyle i) @ ''\<newline>\<newline>'' @
     pingDescriptions (pingLevel i) @ ''\<newline>\<newline>'' @
     resultSummary r @ testingGuide \<and>
   prefix (''**Screen Size ('' @ num (screenSize i) @ ''"):** '')
     (generateExplanation num i r)\<close>
proof -
  assume h: "platform i = unknown \<or> (platform i = android \<and> (dpi i = None \<or> dpi i = Some 0))"
  have e: "generateExplanation num i r =
     screenExplanation num (screenSize i) @
     refreshExplanation num (refreshRate i) @
     playstyleDescriptions (playstyle i) @ ''\<newline>\<newline>'' @
     pingDescriptions (pingLevel i) @ ''\<newline>\<newline>'' @
     resultSummary r @ testingGuide"
    unfolding generateExplanation_def deviceExplanation_empty [OF h] by (rule append_Nil)
  have \<open>prefix ((''**Screen Size ('' @ num (screenSize i) @ ''"):** ''))
     (screenExplanation num (screenSize i) @ rest)\<close> for rest
    unfolding screenExplanation_def by (simp only: append_assoc same_prefix_prefix prefix_same_cases
         prefixI)
  with e show ?thesis by simp
qed

theorem no_device_section_witness:
  \<open>(platform (tieInput\<lparr>dpi := None\<rparr>) = unknown \<or>
    (platform (tieInput\<lparr>dpi := None\<rparr>) = android \<and>
      (dpi (tieInput\<lparr>dpi := None\<rparr>) = None \<or> dpi (tieInput\<lparr>dpi := None\<rparr>) = Some 0))) \<and>
   prefix (''**Screen Size ('' @ wholeToString 5 @ ''"):** '')
     (generateExplanation wholeToString (tieInput\<lparr>dpi := None\<rparr>)
        (calculateSensitivity (tieInput\<lparr>dpi := None\<rparr>)))\<close>
proof -
  have h: "platform (tieInput\<lparr>dpi := None\<rparr>) = unknown \<or>
    (platform (tieInput\<lparr>dpi := None\<rparr>) = android \<and>
      (dpi (tieInput\<lparr>dpi := None\<rparr>) = None \<or> dpi (tieInput\<lparr>dpi := None\<rparr>) = Some 0))"
    by (simp add: tieInput_def)
  have s: "screenSize (tieInput\<lparr>dpi := None\<rparr>) = 5" by (simp add: tieInput_def)
  from no_device_section [OF h, of wholeToString "calculateSensitivity (tieInput\<lparr>dpi := None\<rparr>)"]
  have "prefix (''**Screen Size ('' @ wholeToString (screenSize (tieInput\<lparr>dpi := None\<rparr>)) @ ''\"):** '')
     (generateExplanation wholeToString (tieInput\<lparr>dpi := None\<rparr>)
        (calculateSensitivity (tieInput\<lparr>dpi := None\<rparr>)))" by (rule conjunct2)
  then show ?thesis using h unfolding s by blast
qed

section \<open>Inputs outside the contract\<close>

text \<open>
  The source of both functions has no \<open>throw\<close> and no operation that can raise on
  values of the declared types (the table lookups are over closed enumerations, and
  the division is guarded by the truthiness of \<open>dpi\<close>), so both are modelled as total
  functions without an error result.
\<close>

lemma getScreenSizeModifier_smallest: "s \<le> 5.5 \<Longrightarrow> getScreenSizeModifier s = 1.08"
  by (simp add: getScreenSizeModifier_def)

text \<open>
  C8. For an input with \<open>screenSize \<le> 0\<close> both functions still return a value. The
  screen-size step function takes its first branch, 1.08; the result is the one of a
  5.5 inch screen, with every field between 1 and 200; and the explanation carries the
  compact-screen paragraph.
\<close>

theorem nonpositive_screenSize:
  \<open>screenSize i \<le> 0 \<Longrightarrow>
   getScreenSizeModifier (screenSize i) = 1.08 \<and>
   calculateSensitivity i = calculateSensitivity (i\<lparr>screenSize := 5.5\<rparr>) \<and>
   inRange (general (calculateSensitivity i)) \<and>
   inRange (redDot (calculateSensitivity i)) \<and>
   inRange (scope2x (calculateSensitivity i)) \<and>
   inRange (scope4x (calculateSensitivity i)) \<and>
   inRange (awmScope (calculateSensitivity i)) \<and>
   inRange (freeLook (calculateSensitivity i)) \<and>
   (\<exists>post. generateExplanation num i r =
      deviceExplanation num i @
      ''**Screen Size ('' @ num (screenSize i) @ ''"):** '' @
      ''Compact screen detected. Slightly higher sensitivity helps with '' @
      ''quick movements in limited space.'' @ ''\<newline>\<newline>'' @ post)\<close>
proof (intro conjI)
  assume h: "screenSize i \<le> 0"
  then have m: "getScreenSizeModifier (screenSize i) = 1.08"
    by (intro getScreenSizeModifier_smallest) simp
  show "getScreenSizeModifier (screenSize i) = 1.08" by (rule m)
  have p: "platformModifier (i\<lparr>screenSize := v\<rparr>) = platformModifier i" for v
    by (simp add: platformModifier_def split: option.split)
  have "channelValue (i\<lparr>screenSize := 5.5\<rparr>) c = channelValue i c" for c
    by (simp add: channelValue_def p m getScreenSizeModifier_smallest)
  then show "calculateSensitivity i = calculateSensitivity (i\<lparr>screenSize := 5.5\<rparr>)"
    by (simp add: calculateSensitivity_def initialResult_def)
  show "inRange (general (calculateSensitivity i))" "inRange (redDot (calculateSensitivity i))"
    "inRange (scope2x (calculateSensitivity i))" "inRange (scope4x (calculateSensitivity i))"
    "inRange (awmScope (calculateSensitivity i))" "inRange (freeLook (calculateSensitivity i))"
    by (simp_all add: calculateSensitivity_def finalClamp_def clamp_inRange)
  from h have "screenSize i < 6.0" by simp
  then have \<open>screenExplanation num (screenSize i) =
      ''**Screen Size ('' @ num (screenSize i) @ ''"):** '' @
      ''Compact screen detected. Slightly higher sensitivity helps with '' @
      ''quick movements in limited space.'' @ ''\<newline>\<newline>''\<close>
    unfolding screenExplanation_def by (simp only: if_True append_assoc)
  then show \<open>\<exists>post. generateExplanation num i r =
      deviceExplanation num i @
      ''**Screen Size ('' @ num (screenSize i) @ ''"):** '' @
      ''Compact screen detected. Slightly higher sensitivity helps with '' @
      ''quick movements in limited space.'' @ ''\<newline>\<newline>'' @ post\<close>
    by (simp only: generateExplanation_def append_assoc) blast
qed

theorem nonpositive_screenSize_witness:
  "screenSize (fixtureInput\<lparr>screenSize := - 1\<rparr>) \<le> 0 \<and>
   getScreenSizeModifier (screenSize (fixtureInput\<lparr>screenSize := - 1\<rparr>)) = 1.08 \<and>
   calculateSensitivity (fixtureInput\<lparr>screenSize := - 1\<rparr>) =
     calculateSensitivity (fixtureInput\<lparr>screenSize := 5.5\<rparr>)"
proof -
  have h: "screenSize (fixtureInput\<lparr>screenSize := - 1\<rparr>) \<le> 0" by simp
  have u: "fixtureInput\<lparr>screenSize := - 1, screenSize := 5.5\<rparr> = fixtureInput\<lparr>screenSize := 5.5\<rparr>"
    by simp
  from nonpositive_screenSize [OF h, of wholeToString "calculateSensitivity fixtureInput"] h
  show ?thesis unfolding u by blast
qed

end
